theory Spec2Isabelle
  imports Main
begin

section \<open>Errors\<close>

text \<open>
  The Go code of \<^verbatim>\<open>pkg/bigquery/db.go\<close> meets two families of error values. The
  warehouse driver returns its own errors: a \<^verbatim>\<open>*googleapi.Error\<close> (a status code and
  a message), some other error, or one of these wrapped in further context. The package
  itself adds errors that carry a message only (\<^verbatim>\<open>fmt.Errorf\<close> without \<^verbatim>\<open>%w\<close>),
  errors that wrap a cause (\<^verbatim>\<open>fmt.Errorf\<close> with \<^verbatim>\<open>%w\<close>, \<^verbatim>\<open>errors.Wrap\<close>) and its
  own \<^verbatim>\<open>NoMetadataUpdatedError\<close>, a type the driver does not know.
\<close>

datatype googleapi_Error = GoogleapiError (Code: int) (Message: string)

datatype driver_error =
    Googleapi googleapi_Error
  | OtherError string
  | Chained string driver_error

datatype error =
    Driver driver_error
  | PlainError string
  | Wrapped string error
  | NoMetadataUpdatedError

text \<open>\<^verbatim>\<open>errors.As(err, &apiErr)\<close> with a target of type \<^verbatim>\<open>*googleapi.Error\<close>: the first
  error of that type on the unwrap chain.\<close>

fun driver_As_googleapi :: "driver_error \<Rightarrow> googleapi_Error option" where
  "driver_As_googleapi (Googleapi g) = Some g"
| "driver_As_googleapi (Chained msg err) = driver_As_googleapi err"
| "driver_As_googleapi (OtherError msg) = None"

fun errors_As_googleapi :: "error \<Rightarrow> googleapi_Error option" where
  "errors_As_googleapi (Driver err) = driver_As_googleapi err"
| "errors_As_googleapi (Wrapped msg err) = errors_As_googleapi err"
| "errors_As_googleapi (PlainError msg) = None"
| "errors_As_googleapi NoMetadataUpdatedError = None"

text \<open>\<^verbatim>\<open>fmt.Errorf("%s", googleError.Message)\<close> is an error of the message alone;
  \<^verbatim>\<open>return googleError\<close> returns the API error that \<^verbatim>\<open>errors.As\<close> found.\<close>

definition formatError :: "error \<Rightarrow> error" where
  "formatError err =
     (case errors_As_googleapi err of
        None \<Rightarrow> err
      | Some googleError \<Rightarrow>
          if Code googleError = 404 \<or> Code googleError = 400
          then PlainError (Message googleError)
          else Driver (Googleapi googleError))"

text \<open>The test \<^verbatim>\<open>errors.As(err, &apiErr) && apiErr.Code == 404\<close> used at every call site
  that tolerates a missing object.\<close>

definition is_not_found :: "error \<Rightarrow> bool" where
  "is_not_found err =
     (case errors_As_googleapi err of None \<Rightarrow> False | Some apiErr \<Rightarrow> Code apiErr = 404)"

section \<open>Qualified table names\<close>

text \<open>\<^verbatim>\<open>strings.Split(s, sep)\<close> for a one-byte separator: the segments between the
  separators, in order; the result is never empty (\<^verbatim>\<open>Split("", ".")\<close> is \<^verbatim>\<open>[""]\<close>).\<close>

fun strings_Split :: "string \<Rightarrow> char \<Rightarrow> string list" where
  "strings_Split [] sep = [[]]"
| "strings_Split (c # cs) sep =
     (if c = sep then [] # strings_Split cs sep
      else (case strings_Split cs sep of
              [] \<Rightarrow> [[c]]
            | seg # segs \<Rightarrow> (c # seg) # segs))"

text \<open>\<^verbatim>\<open>strings.Join(segs, sep)\<close>, the inverse used to state what \<open>strings_Split\<close>
  returns.\<close>

fun strings_Join :: "string list \<Rightarrow> char \<Rightarrow> string" where
  "strings_Join [] sep = []"
| "strings_Join [seg] sep = seg"
| "strings_Join (seg # segs) sep = seg @ sep # strings_Join segs sep"

text \<open>The message built by
  \<^verbatim>\<open>fmt.Errorf("table name must be in dataset.table or project.dataset.table format, '%s' given", tableName)\<close>.\<close>

definition malformed_name_error :: "string \<Rightarrow> error" where
  "malformed_name_error tableName =
     PlainError (''table name must be in dataset.table or project.dataset.table format, ''
                 @ [CHR 0x27] @ tableName @ [CHR 0x27] @ '' given'')"

record Config =
  ProjectID :: string

text \<open>A \<^verbatim>\<open>*bigquery.Table\<close> as \<^verbatim>\<open>client.DatasetInProject(p, d).Table(t)\<close> builds it.\<close>

record Table =
  tbl_ProjectID :: string
  tbl_DatasetID :: string
  tbl_TableID :: string

text \<open>The loop \<^verbatim>\<open>for _, component := range tableComponents\<close> that returns at the first
  empty component.\<close>

fun has_empty_component :: "string list \<Rightarrow> bool" where
  "has_empty_component [] = False"
| "has_empty_component (component # rest) =
     (if component = [] then True else has_empty_component rest)"

definition getTableRef :: "Config \<Rightarrow> string \<Rightarrow> error + Table" where
  "getTableRef config tableName =
     (let tableComponents = strings_Split tableName (CHR ''.'') in
      if has_empty_component tableComponents then Inl (malformed_name_error tableName)
      else if length tableComponents = 2 then
        Inr \<lparr>tbl_ProjectID = ProjectID config,
             tbl_DatasetID = tableComponents ! 0,
             tbl_TableID = tableComponents ! 1\<rparr>
      else if length tableComponents = 3 then
        Inr \<lparr>tbl_ProjectID = tableComponents ! 0,
             tbl_DatasetID = tableComponents ! 1,
             tbl_TableID = tableComponents ! 2\<rparr>
      else Inl (malformed_name_error tableName))"

text \<open>\<^verbatim>\<open>strings.TrimSpace\<close> on the white space of ASCII.\<close>

definition is_space :: "char \<Rightarrow> bool" where
  "is_space c = (c \<in> set [CHR 0x09, CHR 0x0A, CHR 0x0B, CHR 0x0C, CHR 0x0D, CHR 0x20])"

definition strings_TrimSpace :: "string \<Rightarrow> string" where
  "strings_TrimSpace s = rev (dropWhile is_space (rev (dropWhile is_space s)))"

definition BuildTableExistsQuery :: "Config \<Rightarrow> string \<Rightarrow> error + string" where
  "BuildTableExistsQuery config tableName =
     (let tableComponents = strings_Split tableName (CHR ''.'') in
      if has_empty_component tableComponents then Inl (malformed_name_error tableName)
      else if length tableComponents = 2 \<or> length tableComponents = 3 then
        (let datasetRef =
               (if length tableComponents = 2
                then ProjectID config @ ''.'' @ tableComponents ! 0 @ ''.INFORMATION_SCHEMA.TABLES''
                else tableComponents ! 0 @ ''.'' @ tableComponents ! 1 @ ''.INFORMATION_SCHEMA.TABLES'');
             targetTable =
               (if length tableComponents = 2 then tableComponents ! 1 else tableComponents ! 2);
             query = [CHR 0x0A, CHR 0x09, CHR 0x09] @ ''SELECT EXISTS (SELECT 1 FROM '' @ datasetRef
                     @ '' WHERE table_name = '' @ [CHR 0x27] @ targetTable @ [CHR 0x27] @ '')''
         in Inr (strings_TrimSpace query))
      else Inl (malformed_name_error tableName))"

section \<open>Assets and live table metadata\<close>

record Column =
  col_Name :: string
  col_Description :: string
  col_PrimaryKey :: bool

record Materialization =
  mat_Type :: string
  PartitionBy :: string
  ClusterBy :: "string list"

record Asset =
  Name :: string
  Description :: string
  Columns :: "Column list"
  Materialization :: Materialization

record TimePartitioning =
  tp_Field :: string

record RangePartitioning =
  rp_Field :: string

record Clustering =
  Fields :: "string list"

record FieldSchema =
  fs_Name :: string
  fs_Description :: string
  fs_Type :: string

record PrimaryKey =
  pk_Columns :: "string list"

record TableConstraints =
  PrimaryKey :: "PrimaryKey option"

text \<open>The fields of \<^verbatim>\<open>bigquery.TableMetadata\<close> the code reads; a pointer that may be
  nil is an option.\<close>

record TableMetadata =
  Type :: string
  TimePartitioning :: "TimePartitioning option"
  RangePartitioning :: "RangePartitioning option"
  Clustering :: "Clustering option"
  Schema :: "FieldSchema list"
  ETag :: string
  TableConstraints :: "TableConstraints option"

section \<open>Metadata drift detection\<close>

definition IsSamePartitioning :: "TableMetadata \<Rightarrow> Asset \<Rightarrow> bool" where
  "IsSamePartitioning meta asset =
     (if PartitionBy (Materialization asset) \<noteq> [] \<and>
         TimePartitioning meta = None \<and>
         RangePartitioning meta = None
      then False
      else if TimePartitioning meta = None \<and> RangePartitioning meta = None then True
      else if (case TimePartitioning meta of
                 None \<Rightarrow> False
               | Some tp \<Rightarrow> tp_Field tp \<noteq> PartitionBy (Materialization asset))
      then False
      else if (case RangePartitioning meta of
                 None \<Rightarrow> False
               | Some rp \<Rightarrow> rp_Field rp \<noteq> PartitionBy (Materialization asset))
      then False
      else True)"

text \<open>The loop \<^verbatim>\<open>for i := range bigQueryFields\<close> of \<^verbatim>\<open>IsSameClustering\<close>, from index
  \<open>i\<close> on. It reads \<^verbatim>\<open>userFields[i]\<close> only after the two lengths were found equal, so
  the index is in range wherever the loop is entered.\<close>

function fields_loop :: "nat \<Rightarrow> string list \<Rightarrow> string list \<Rightarrow> bool" where
  "fields_loop i bigQueryFields userFields =
     (if i < length bigQueryFields
      then (if bigQueryFields ! i \<noteq> userFields ! i then False
            else fields_loop (Suc i) bigQueryFields userFields)
      else True)"
  by pat_completeness auto
termination
  by (relation "measure (\<lambda>(i, bigQueryFields, userFields). length bigQueryFields - i)") auto

declare fields_loop.simps [simp del]

definition IsSameClustering :: "TableMetadata \<Rightarrow> Asset \<Rightarrow> bool" where
  "IsSameClustering meta asset =
     (if length (ClusterBy (Materialization asset)) > 0 \<and>
         (case Clustering meta of None \<Rightarrow> True | Some c \<Rightarrow> length (Fields c) = 0)
      then False
      else (case Clustering meta of
              None \<Rightarrow> True
            | Some c \<Rightarrow>
                (let bigQueryFields = Fields c;
                     userFields = ClusterBy (Materialization asset)
                 in if length bigQueryFields \<noteq> length userFields then False
                    else fields_loop 0 bigQueryFields userFields)))"

definition IsPartitioningOrClusteringMismatch :: "TableMetadata \<Rightarrow> Asset \<Rightarrow> bool" where
  "IsPartitioningOrClusteringMismatch meta asset =
     (if TimePartitioning meta \<noteq> None \<or> RangePartitioning meta \<noteq> None \<or>
         PartitionBy (Materialization asset) \<noteq> [] \<or>
         length (ClusterBy (Materialization asset)) > 0
      then (if \<not> IsSamePartitioning meta asset \<or> \<not> IsSameClustering meta asset
            then True else False)
      else False)"

text \<open>Two names of other packages that \<^verbatim>\<open>IsMaterializationTypeMismatch\<close> uses and this
  file does not define are parameters of the model: the constant
  \<^verbatim>\<open>pipeline.MaterializationTypeNone\<close> and the comparison \<^verbatim>\<open>strings.EqualFold\<close>
  (equality under Unicode case folding).\<close>

record Extern =
  MaterializationTypeNone :: string
  strings_EqualFold :: "string \<Rightarrow> string \<Rightarrow> bool"

definition IsMaterializationTypeMismatch :: "Extern \<Rightarrow> TableMetadata \<Rightarrow> Asset \<Rightarrow> bool" where
  "IsMaterializationTypeMismatch ext meta asset =
     (if mat_Type (Materialization asset) = MaterializationTypeNone ext then False
      else (let tableType = Type meta
            in \<not> strings_EqualFold ext tableType (mat_Type (Materialization asset))))"

section \<open>The warehouse client\<close>

text \<open>
  The driver is outside this package. The model takes its answers as functions of the
  request (\<open>Inl\<close>, respectively \<open>Some\<close>, is the driver's error) and records every
  request an operation sends as a \<open>call\<close>, in the order sent.
\<close>

record TableMetadataToUpdate =
  upd_Schema :: "FieldSchema list option"
  upd_Description :: "string option"
  upd_TableConstraints :: "TableConstraints option"

datatype call =
    Table_Metadata Table
  | Table_Delete Table
  | Table_Update Table TableMetadataToUpdate string
  | Dataset_Metadata string string
  | Dataset_Create string string

record bigquery_Client =
  table_Metadata :: "Table \<Rightarrow> driver_error + TableMetadata"
  table_Delete :: "Table \<Rightarrow> driver_error option"
  table_Update :: "Table \<Rightarrow> TableMetadataToUpdate \<Rightarrow> string \<Rightarrow> driver_error option"
  dataset_Metadata :: "string \<Rightarrow> string \<Rightarrow> driver_error option"
  dataset_Create :: "string \<Rightarrow> string \<Rightarrow> driver_error option"

record Client =
  client :: bigquery_Client
  config :: Config

definition quoted :: "string \<Rightarrow> string" where
  "quoted s = [CHR 0x27] @ s @ [CHR 0x27]"

section \<open>Drop on mismatch\<close>

definition DropTableOnMismatch ::
  "Extern \<Rightarrow> Client \<Rightarrow> string \<Rightarrow> Asset \<Rightarrow> error option \<times> call list" where
  "DropTableOnMismatch ext d tableName asset =
     (case getTableRef (config d) tableName of
        Inl err \<Rightarrow> (Some err, [])
      | Inr tableRef \<Rightarrow>
          (case table_Metadata (client d) tableRef of
             Inl err \<Rightarrow>
               if is_not_found (Driver err) then (None, [Table_Metadata tableRef])
               else (Some (Wrapped (''failed to fetch metadata for table '' @ quoted tableName) (Driver err)),
                     [Table_Metadata tableRef])
           | Inr meta \<Rightarrow>
               if IsMaterializationTypeMismatch ext meta asset \<or>
                  IsPartitioningOrClusteringMismatch meta asset
               then (case table_Delete (client d) tableRef of
                       Some err \<Rightarrow>
                         (Some (Wrapped (''failed to delete table '' @ quoted tableName) (Driver err)),
                          [Table_Metadata tableRef, Table_Delete tableRef])
                     | None \<Rightarrow> (None, [Table_Metadata tableRef, Table_Delete tableRef]))
               else (None, [Table_Metadata tableRef])))"

section \<open>Dataset provisioning\<close>

text \<open>
  The two package-level \<^verbatim>\<open>sync.Map\<close>s. \<^verbatim>\<open>datasetLocks\<close> maps a key to a mutex; the
  model runs one call at a time, so it keeps the keys that have a mutex and
  \<^verbatim>\<open>Lock\<close>/\<^verbatim>\<open>Unlock\<close> do nothing.
\<close>

record Globals =
  datasetNameCache :: "string \<rightharpoonup> bool"
  datasetLocks :: "string set"

definition CreateDataSetIfNotExist ::
  "Client \<Rightarrow> Asset \<Rightarrow> Globals \<Rightarrow> error option \<times> Globals \<times> call list" where
  "CreateDataSetIfNotExist d asset g =
     (let tableName = Name asset;
          tableComponents = strings_Split tableName (CHR ''.'')
      in if length tableComponents \<noteq> 2 \<and> length tableComponents \<noteq> 3 then (None, g, [])
         else
          (let projectID = (if length tableComponents = 2 then ProjectID (config d)
                            else tableComponents ! 0);
               datasetName = (if length tableComponents = 2 then tableComponents ! 0
                              else tableComponents ! 1);
               cacheKey = projectID @ ''.'' @ datasetName
           in if datasetNameCache g cacheKey \<noteq> None then (None, g, [])
              else
               (let g1 = g\<lparr>datasetLocks := insert cacheKey (datasetLocks g)\<rparr>
                in if datasetNameCache g1 cacheKey \<noteq> None then (None, g1, [])
                   else
                    (case dataset_Metadata (client d) projectID datasetName of
                       None \<Rightarrow> (None, g1, [Dataset_Metadata projectID datasetName])
                     | Some err \<Rightarrow>
                         if is_not_found (Driver err) then
                           (case dataset_Create (client d) projectID datasetName of
                              Some err' \<Rightarrow>
                                (Some (Wrapped (''failed to create dataset '' @ quoted datasetName) (Driver err')),
                                 g1,
                                 [Dataset_Metadata projectID datasetName,
                                  Dataset_Create projectID datasetName])
                            | None \<Rightarrow>
                                (None,
                                 g1\<lparr>datasetNameCache := (datasetNameCache g1)(cacheKey \<mapsto> True)\<rparr>,
                                 [Dataset_Metadata projectID datasetName,
                                  Dataset_Create projectID datasetName]))
                         else
                           (Some (Wrapped (''failed to fetch metadata for table '' @ quoted tableName) (Driver err)),
                            g1,
                            [Dataset_Metadata projectID datasetName])))))"

section \<open>Metadata reconciliation\<close>

text \<open>The first loop of \<^verbatim>\<open>UpdateTableMetadataIfNotExist\<close>: it fills \<^verbatim>\<open>colsByName\<close>
  (a later column of the same name replaces an earlier one; the loop variable is taken
  per iteration, as Go 1.22 does) and raises \<^verbatim>\<open>anyColumnHasDescription\<close>.\<close>

fun columns_loop ::
  "Column list \<Rightarrow> (string \<rightharpoonup> Column) \<Rightarrow> bool \<Rightarrow> (string \<rightharpoonup> Column) \<times> bool" where
  "columns_loop [] colsByName anyColumnHasDescription = (colsByName, anyColumnHasDescription)"
| "columns_loop (col # cols) colsByName anyColumnHasDescription =
     columns_loop cols (colsByName(col_Name col \<mapsto> col))
       (if col_Description col \<noteq> [] then True else anyColumnHasDescription)"

text \<open>The second loop: every live field that has an asset column of its name takes that
  column's description, and \<^verbatim>\<open>colsChanged\<close> is raised.\<close>

fun schema_loop ::
  "(string \<rightharpoonup> Column) \<Rightarrow> FieldSchema list \<Rightarrow> bool \<Rightarrow> FieldSchema list \<times> bool" where
  "schema_loop colsByName [] colsChanged = ([], colsChanged)"
| "schema_loop colsByName (field # rest) colsChanged =
     (case colsByName (fs_Name field) of
        Some col \<Rightarrow>
          (let (rest', colsChanged') = schema_loop colsByName rest True
           in (field\<lparr>fs_Description := col_Description col\<rparr> # rest', colsChanged'))
      | None \<Rightarrow>
          (let (rest', colsChanged') = schema_loop colsByName rest colsChanged
           in (field # rest', colsChanged')))"

text \<open>Modelled from the spec: \<^verbatim>\<open>asset.ColumnNamesWithPrimaryKey()\<close> belongs to the
  pipeline package, which is not among the sources; the spec describes its result as
  "all asset columns flagged as primary key", taken here in column order.\<close>

definition ColumnNamesWithPrimaryKey :: "Asset \<Rightarrow> string list" where
  "ColumnNamesWithPrimaryKey asset = map col_Name (filter col_PrimaryKey (Columns asset))"

text \<open>The update request the function builds from the fetched metadata.\<close>

definition build_update :: "Asset \<Rightarrow> (string \<rightharpoonup> Column) \<Rightarrow> TableMetadata \<Rightarrow> TableMetadataToUpdate" where
  "build_update asset colsByName meta =
     (let (schema, colsChanged) = schema_loop colsByName (Schema meta) False;
          primaryKeys = ColumnNamesWithPrimaryKey asset
      in \<lparr>upd_Schema = (if colsChanged then Some schema else None),
          upd_Description = (if Description asset \<noteq> [] then Some (Description asset) else None),
          upd_TableConstraints =
            (if length primaryKeys > 0
             then Some \<lparr>PrimaryKey = Some \<lparr>pk_Columns = primaryKeys\<rparr>\<rparr>
             else None)\<rparr>)"

definition UpdateTableMetadataIfNotExist :: "Client \<Rightarrow> Asset \<Rightarrow> error option \<times> call list" where
  "UpdateTableMetadataIfNotExist d asset =
     (let (colsByName, anyColumnHasDescription) = columns_loop (Columns asset) Map.empty False
      in if Description asset = [] \<and> (length (Columns asset) = 0 \<or> \<not> anyColumnHasDescription)
         then (Some NoMetadataUpdatedError, [])
         else
          (case getTableRef (config d) (Name asset) of
             Inl err \<Rightarrow> (Some err, [])
           | Inr tableRef \<Rightarrow>
               (case table_Metadata (client d) tableRef of
                  Inl err \<Rightarrow>
                    if is_not_found (Driver err) then (None, [Table_Metadata tableRef])
                    else (Some (Driver err), [Table_Metadata tableRef])
                | Inr meta \<Rightarrow>
                    (let update = build_update asset colsByName meta
                     in case table_Update (client d) tableRef update (ETag meta) of
                          Some err \<Rightarrow>
                            (Some (Wrapped ''failed to update table metadata'' (Driver err)),
                             [Table_Metadata tableRef, Table_Update tableRef update (ETag meta)])
                        | None \<Rightarrow>
                            (None,
                             [Table_Metadata tableRef, Table_Update tableRef update (ETag meta)])))))"

section \<open>Example inputs\<close>

text \<open>A live table and an asset as the examples of the specification describe them.\<close>

definition live_table ::
  "TimePartitioning option \<Rightarrow> RangePartitioning option \<Rightarrow> Clustering option \<Rightarrow> TableMetadata" where
  "live_table tp rp cl =
     \<lparr>Type = ''TABLE'', TimePartitioning = tp, RangePartitioning = rp, Clustering = cl,
      Schema = [], ETag = ''etag-1'', TableConstraints = None\<rparr>"

definition table_asset :: "string \<Rightarrow> string \<Rightarrow> string list \<Rightarrow> Asset" where
  "table_asset name partitionBy clusterBy =
     \<lparr>Name = name, Description = [], Columns = [],
      Materialization = \<lparr>mat_Type = ''table'', PartitionBy = partitionBy, ClusterBy = clusterBy\<rparr>\<rparr>"

text \<open>On ASCII strings \<^verbatim>\<open>strings.EqualFold\<close> is equality after lowering the letters
  A to Z; the examples take it for the comparison, and the empty string for
  \<^verbatim>\<open>pipeline.MaterializationTypeNone\<close>.\<close>

definition ascii_lower :: "char \<Rightarrow> char" where
  "ascii_lower c =
     (case map_of (zip ''ABCDEFGHIJKLMNOPQRSTUVWXYZ'' ''abcdefghijklmnopqrstuvwxyz'') c of
        Some l \<Rightarrow> l
      | None \<Rightarrow> c)"

definition ascii_EqualFold :: "string \<Rightarrow> string \<Rightarrow> bool" where
  "ascii_EqualFold s t = (map ascii_lower s = map ascii_lower t)"

definition example_extern :: Extern where
  "example_extern = \<lparr>MaterializationTypeNone = [], strings_EqualFold = ascii_EqualFold\<rparr>"

text \<open>A client of the home project \<^verbatim>\<open>home\<close> whose driver gives the same answer to every
  request of a kind: to a table metadata fetch, a table delete, a table update, a dataset
  metadata fetch and a dataset create.\<close>

definition stub_client ::
  "driver_error + TableMetadata \<Rightarrow> driver_error option \<Rightarrow> driver_error option \<Rightarrow>
   driver_error option \<Rightarrow> driver_error option \<Rightarrow> Client" where
  "stub_client fetched deleted updated probed created =
     \<lparr>client = \<lparr>table_Metadata = (\<lambda>tableRef. fetched),
                 table_Delete = (\<lambda>tableRef. deleted),
                 table_Update = (\<lambda>tableRef upd etag. updated),
                 dataset_Metadata = (\<lambda>projectID datasetName. probed),
                 dataset_Create = (\<lambda>projectID datasetName. created)\<rparr>,
      config = \<lparr>ProjectID = ''home''\<rparr>\<rparr>"

definition not_found :: driver_error where
  "not_found = Googleapi (GoogleapiError 404 ''Not found'')"

definition backend_error :: driver_error where
  "backend_error = Googleapi (GoogleapiError 500 ''backend error'')"

text \<open>The two maps as they are when the process starts.\<close>

definition empty_globals :: Globals where
  "empty_globals = \<lparr>datasetNameCache = Map.empty, datasetLocks = {}\<rparr>"

text \<open>An asset with a description and the primary key \<^verbatim>\<open>id\<close>, and a live table that
  already has that primary key.\<close>

definition keyed_asset :: Asset where
  "keyed_asset =
     \<lparr>Name = ''ds.users'', Description = ''All users'',
      Columns = [\<lparr>col_Name = ''id'', col_Description = [], col_PrimaryKey = True\<rparr>,
                 \<lparr>col_Name = ''email'', col_Description = [], col_PrimaryKey = False\<rparr>],
      Materialization = \<lparr>mat_Type = ''table'', PartitionBy = [], ClusterBy = []\<rparr>\<rparr>"

definition keyed_table :: TableMetadata where
  "keyed_table =
     \<lparr>Type = ''TABLE'', TimePartitioning = None, RangePartitioning = None, Clustering = None,
      Schema = [], ETag = ''etag-1'',
      TableConstraints = Some \<lparr>PrimaryKey = Some \<lparr>pk_Columns = [''id'']\<rparr>\<rparr>\<rparr>"

text \<open>The references that \<^verbatim>\<open>proj.ds.events\<close> and \<^verbatim>\<open>ds.users\<close> resolve to.\<close>

definition events_ref :: Table where
  "events_ref = \<lparr>tbl_ProjectID = ''proj'', tbl_DatasetID = ''ds'', tbl_TableID = ''events''\<rparr>"

definition users_ref :: Table where
  "users_ref = \<lparr>tbl_ProjectID = ''home'', tbl_DatasetID = ''ds'', tbl_TableID = ''users''\<rparr>"

section \<open>Properties of the name splitter\<close>

text \<open>\<open>strings_Split\<close> returns the one list of separator-free segments whose join is the
  input.\<close>

lemma strings_Split_not_Nil: "strings_Split s sep \<noteq> []"
  by (induction s) (auto split: list.splits)

lemma has_empty_component_iff: "has_empty_component xs = ([] \<in> set xs)"
  by (induction xs) auto

lemma strings_Split_no_sep: "seg \<in> set (strings_Split s sep) \<Longrightarrow> sep \<notin> set seg"
  by (induction s arbitrary: seg) (auto split: if_splits list.splits)

lemma strings_Join_Cons_Cons:
  "strings_Join ((c # seg) # segs) sep = c # strings_Join (seg # segs) sep"
  by (cases segs) simp_all

lemma strings_Join_Nil_Cons:
  "segs \<noteq> [] \<Longrightarrow> strings_Join ([] # segs) sep = sep # strings_Join segs sep"
  by (cases segs) simp_all

lemma strings_Split_join: "strings_Join (strings_Split s sep) sep = s"
proof (induction s)
  case Nil
  show ?case by simp
next
  case (Cons c cs)
  show ?case
  proof (cases "c = sep")
    case True
    with Cons show ?thesis by (simp add: strings_Join_Nil_Cons strings_Split_not_Nil)
  next
    case False
    obtain seg segs where sp: "strings_Split cs sep = seg # segs"
      using strings_Split_not_Nil [of cs sep] by (cases "strings_Split cs sep") auto
    with Cons False show ?thesis by (simp add: strings_Join_Cons_Cons)
  qed
qed

lemma strings_Split_of_join:
  "segs \<noteq> [] \<Longrightarrow> \<forall>seg \<in> set segs. sep \<notin> set seg \<Longrightarrow> strings_Split (strings_Join segs sep) sep = segs"
proof (induction segs sep rule: strings_Join.induct)
  case (1 sep) then show ?case by simp
next
  case (2 seg sep)
  then show ?case by (induction seg) auto
next
  case (3 seg v va sep)
  then show ?case by (induction seg) auto
qed

text \<open>The query text of the specification's pattern, for \<^verbatim>\<open>ds.t\<close> in the home project.\<close>

lemma BuildTableExistsQuery_example:
  "BuildTableExistsQuery \<lparr>ProjectID = ''home''\<rparr> ''ds.t'' =
     Inr (''SELECT EXISTS (SELECT 1 FROM home.ds.INFORMATION_SCHEMA.TABLES WHERE table_name = ''
          @ quoted ''t'' @ '')'')"
  by (simp add: BuildTableExistsQuery_def strings_TrimSpace_def is_space_def quoted_def)

section \<open>The clustering loop\<close>

lemma fields_loop_eq:
  "length bq = length us \<Longrightarrow>
   fields_loop i bq us = (\<forall>j. i \<le> j \<and> j < length bq \<longrightarrow> bq ! j = us ! j)"
proof (induction i bq us rule: fields_loop.induct)
  case (1 i bq us)
  show ?case
  proof (cases "i < length bq")
    case False
    then show ?thesis by (subst fields_loop.simps) auto
  next
    case True
    show ?thesis
    proof (cases "bq ! i = us ! i")
      case False
      with True show ?thesis by (subst fields_loop.simps) auto
    next
      case eq: True
      have "fields_loop i bq us = fields_loop (Suc i) bq us"
        using True eq by (subst fields_loop.simps) simp
      also have "\<dots> = (\<forall>j. Suc i \<le> j \<and> j < length bq \<longrightarrow> bq ! j = us ! j)"
        using 1 True eq by simp
      also have "\<dots> = (\<forall>j. i \<le> j \<and> j < length bq \<longrightarrow> bq ! j = us ! j)"
        using eq by (metis Suc_leI le_neq_implies_less Suc_leD)
      finally show ?thesis .
    qed
  qed
qed

section \<open>Facts used by the examples\<close>

lemma is_not_found_simps:
  "is_not_found (Driver not_found)" "\<not> is_not_found (Driver backend_error)"
  by (simp_all add: is_not_found_def not_found_def backend_error_def)

lemma getTableRef_events:
  "getTableRef (config (stub_client fetched deleted updated probed created)) ''proj.ds.events''
     = Inr events_ref"
  by (simp add: getTableRef_def stub_client_def events_ref_def)

lemma getTableRef_users:
  "getTableRef (config (stub_client fetched deleted updated probed created)) ''ds.users''
     = Inr users_ref"
  by (simp add: getTableRef_def stub_client_def users_ref_def)

lemma type_matches_example:
  "\<not> IsMaterializationTypeMismatch example_extern (live_table tp rp cl)
       (table_asset name partitionBy clusterBy)"
  by (simp add: IsMaterializationTypeMismatch_def example_extern_def live_table_def
        table_asset_def ascii_EqualFold_def ascii_lower_def)

lemma events_same_partition:
  "\<not> IsPartitioningOrClusteringMismatch
       (live_table (Some \<lparr>tp_Field = ''event_date''\<rparr>) None None)
       (table_asset ''proj.ds.events'' ''event_date'' [])"
  by (simp add: IsPartitioningOrClusteringMismatch_def IsSamePartitioning_def
        IsSameClustering_def live_table_def table_asset_def)

lemma events_other_partition:
  "IsPartitioningOrClusteringMismatch
     (live_table (Some \<lparr>tp_Field = ''created_at''\<rparr>) None None)
     (table_asset ''proj.ds.events'' ''event_date'' [])"
  by (simp add: IsPartitioningOrClusteringMismatch_def IsSamePartitioning_def
        IsSameClustering_def live_table_def table_asset_def)

section \<open>Drop on mismatch\<close>

text \<open>
  Claim C1. For a table name that resolves to a reference, \<open>DropTableOnMismatch\<close>
  fetches the table's metadata and then: if the fetch reports the table not found, it
  returns success and sends no delete; if the metadata mismatches the asset (the
  materialization type, or the partitioning and clustering aggregate), it sends exactly
  one delete after the fetch and returns success when the delete succeeds and the
  wrapped delete error when it fails; if nothing mismatches, it returns success and
  sends nothing but the fetch.
\<close>

theorem DropTableOnMismatch_spec:
  assumes "getTableRef (config d) tableName = Inr tableRef"
  shows
   "(\<forall>err. table_Metadata (client d) tableRef = Inl err \<and> is_not_found (Driver err) \<longrightarrow>
       DropTableOnMismatch ext d tableName asset = (None, [Table_Metadata tableRef])) \<and>
    (\<forall>meta. table_Metadata (client d) tableRef = Inr meta \<and>
        (IsMaterializationTypeMismatch ext meta asset \<or>
         IsPartitioningOrClusteringMismatch meta asset) \<longrightarrow>
       (table_Delete (client d) tableRef = None \<longrightarrow>
          DropTableOnMismatch ext d tableName asset =
            (None, [Table_Metadata tableRef, Table_Delete tableRef])) \<and>
       (\<forall>err. table_Delete (client d) tableRef = Some err \<longrightarrow>
          DropTableOnMismatch ext d tableName asset =
            (Some (Wrapped (''failed to delete table '' @ quoted tableName) (Driver err)),
             [Table_Metadata tableRef, Table_Delete tableRef]))) \<and>
    (\<forall>meta. table_Metadata (client d) tableRef = Inr meta \<and>
        \<not> IsMaterializationTypeMismatch ext meta asset \<and>
        \<not> IsPartitioningOrClusteringMismatch meta asset \<longrightarrow>
       DropTableOnMismatch ext d tableName asset = (None, [Table_Metadata tableRef]))"
  using assms unfolding DropTableOnMismatch_def by simp

theorem DropTableOnMismatch_spec_witness:
  "DropTableOnMismatch example_extern
     (stub_client (Inl not_found) None None None None)
     ''proj.ds.events'' (table_asset ''proj.ds.events'' ''event_date'' [])
     = (None, [Table_Metadata events_ref]) \<and>
   DropTableOnMismatch example_extern
     (stub_client (Inr (live_table (Some \<lparr>tp_Field = ''event_date''\<rparr>) None None))
        None None None None)
     ''proj.ds.events'' (table_asset ''proj.ds.events'' ''event_date'' [])
     = (None, [Table_Metadata events_ref]) \<and>
   DropTableOnMismatch example_extern
     (stub_client (Inr (live_table (Some \<lparr>tp_Field = ''created_at''\<rparr>) None None))
        None None None None)
     ''proj.ds.events'' (table_asset ''proj.ds.events'' ''event_date'' [])
     = (None, [Table_Metadata events_ref, Table_Delete events_ref]) \<and>
   DropTableOnMismatch example_extern
     (stub_client (Inr (live_table (Some \<lparr>tp_Field = ''created_at''\<rparr>) None None))
        (Some backend_error) None None None)
     ''proj.ds.events'' (table_asset ''proj.ds.events'' ''event_date'' [])
     = (Some (Wrapped (''failed to delete table '' @ quoted ''proj.ds.events'')
                (Driver backend_error)),
        [Table_Metadata events_ref, Table_Delete events_ref])"
  using DropTableOnMismatch_spec
          [OF getTableRef_events, of "Inl not_found" None None None None example_extern
             "table_asset ''proj.ds.events'' ''event_date'' []"]
        DropTableOnMismatch_spec
          [OF getTableRef_events,
           of "Inr (live_table (Some \<lparr>tp_Field = ''event_date''\<rparr>) None None)"
              None None None None
              example_extern "table_asset ''proj.ds.events'' ''event_date'' []"]
        DropTableOnMismatch_spec
          [OF getTableRef_events,
           of "Inr (live_table (Some \<lparr>tp_Field = ''created_at''\<rparr>) None None)"
              None None None None
              example_extern "table_asset ''proj.ds.events'' ''event_date'' []"]
        DropTableOnMismatch_spec
          [OF getTableRef_events,
           of "Inr (live_table (Some \<lparr>tp_Field = ''created_at''\<rparr>) None None)"
              "Some backend_error" None None None
              example_extern "table_asset ''proj.ds.events'' ''event_date'' []"]
  by (simp add: stub_client_def is_not_found_simps type_matches_example
        events_same_partition events_other_partition)

text \<open>
  Claim C2, as far as the code goes. The guard of \<open>IsPartitioningOrClusteringMismatch\<close>
  looks at the live time and range partitioning and at the asset's partition and cluster
  columns, not at the live clustering: for a live table that is clustered and not
  partitioned and an asset that declares neither, the aggregate reports no mismatch,
  although \<open>IsSameClustering\<close> itself reports one for the same pair.
\<close>

theorem IsPartitioningOrClusteringMismatch_skips_live_clustering:
  assumes "TimePartitioning meta = None" and "RangePartitioning meta = None"
    and "PartitionBy (Materialization asset) = []" and "ClusterBy (Materialization asset) = []"
    and "Clustering meta = Some c" and "Fields c \<noteq> []"
  shows "\<not> IsPartitioningOrClusteringMismatch meta asset \<and> \<not> IsSameClustering meta asset"
  using assms by (simp add: IsPartitioningOrClusteringMismatch_def IsSameClustering_def)

theorem IsPartitioningOrClusteringMismatch_skips_live_clustering_witness:
  "\<not> IsPartitioningOrClusteringMismatch (live_table None None (Some \<lparr>Fields = [''a'']\<rparr>))
       (table_asset ''ds.t'' [] []) \<and>
   \<not> IsSameClustering (live_table None None (Some \<lparr>Fields = [''a'']\<rparr>))
       (table_asset ''ds.t'' [] [])"
  using IsPartitioningOrClusteringMismatch_skips_live_clustering
          [of "live_table None None (Some \<lparr>Fields = [''a'']\<rparr>)" "table_asset ''ds.t'' [] []"
              "\<lparr>Fields = [''a'']\<rparr>"]
  by (simp add: live_table_def table_asset_def)

section \<open>Dataset provisioning\<close>

text \<open>The path that creates the dataset stores the key: the next call for the same
  asset returns at the first cache test and sends nothing.\<close>

lemma CreateDataSetIfNotExist_created_cached:
  assumes "strings_Split (Name asset) (CHR ''.'') = [datasetName, tableID]"
    and "datasetNameCache g (ProjectID (config d) @ ''.'' @ datasetName) = None"
    and "dataset_Metadata (client d) (ProjectID (config d)) datasetName = Some err"
    and "is_not_found (Driver err)"
    and "dataset_Create (client d) (ProjectID (config d)) datasetName = None"
  shows "\<exists>g'. CreateDataSetIfNotExist d asset g =
                 (None, g', [Dataset_Metadata (ProjectID (config d)) datasetName,
                             Dataset_Create (ProjectID (config d)) datasetName]) \<and>
              datasetNameCache g' (ProjectID (config d) @ ''.'' @ datasetName) = Some True \<and>
              CreateDataSetIfNotExist d asset g' = (None, g', [])"
  using assms unfolding CreateDataSetIfNotExist_def Let_def by simp

text \<open>
  Claim C3, as far as the code goes. When the key is not cached and the probe finds the
  dataset, \<open>CreateDataSetIfNotExist\<close> returns success and registers the lock, and the
  existence cache still has no entry for the key: the same call on the resulting state
  sends the same probe again.
\<close>

theorem CreateDataSetIfNotExist_found_not_cached:
  assumes "length (strings_Split (Name asset) (CHR ''.'')) = 2 \<or>
           length (strings_Split (Name asset) (CHR ''.'')) = 3"
  shows
   "let segs = strings_Split (Name asset) (CHR ''.'');
        projectID = (if length segs = 2 then ProjectID (config d) else segs ! 0);
        datasetName = (if length segs = 2 then segs ! 0 else segs ! 1);
        cacheKey = projectID @ ''.'' @ datasetName;
        g' = g\<lparr>datasetLocks := insert cacheKey (datasetLocks g)\<rparr>
    in datasetNameCache g cacheKey = None \<and>
       dataset_Metadata (client d) projectID datasetName = None \<longrightarrow>
         CreateDataSetIfNotExist d asset g = (None, g', [Dataset_Metadata projectID datasetName]) \<and>
         datasetNameCache g' cacheKey = None \<and>
         CreateDataSetIfNotExist d asset g' = (None, g', [Dataset_Metadata projectID datasetName])"
  using assms unfolding CreateDataSetIfNotExist_def Let_def by auto

theorem CreateDataSetIfNotExist_found_not_cached_witness:
  "CreateDataSetIfNotExist (stub_client (Inl not_found) None None None None)
     (table_asset ''ds.t'' [] []) empty_globals =
     (None, empty_globals\<lparr>datasetLocks := {''home.ds''}\<rparr>, [Dataset_Metadata ''home'' ''ds'']) \<and>
   datasetNameCache (empty_globals\<lparr>datasetLocks := {''home.ds''}\<rparr>) ''home.ds'' = None \<and>
   CreateDataSetIfNotExist (stub_client (Inl not_found) None None None None)
     (table_asset ''ds.t'' [] []) (empty_globals\<lparr>datasetLocks := {''home.ds''}\<rparr>) =
     (None, empty_globals\<lparr>datasetLocks := {''home.ds''}\<rparr>, [Dataset_Metadata ''home'' ''ds''])"
  using CreateDataSetIfNotExist_found_not_cached
          [of "table_asset ''ds.t'' [] []" "stub_client (Inl not_found) None None None None"
              empty_globals]
  by (simp add: Let_def table_asset_def stub_client_def empty_globals_def)

section \<open>Qualified-name resolution\<close>

text \<open>
  Claim C4. \<open>getTableRef\<close> is a function of the configured project and the name. It
  succeeds exactly when splitting the name on the dot gives two or three segments, none
  of them empty: two segments resolve to the configured project, segment 0 as dataset
  and segment 1 as table; three segments resolve to segment 0 as project, segment 1 as
  dataset and segment 2 as table. Every other name (one segment, four or more, or an
  empty segment) fails with the malformed-name error.
\<close>

theorem getTableRef_spec:
  "getTableRef cfg tableName =
     (let segs = strings_Split tableName (CHR ''.'') in
      if length segs = 2 \<and> (\<forall>seg \<in> set segs. seg \<noteq> []) then
        Inr \<lparr>tbl_ProjectID = ProjectID cfg, tbl_DatasetID = segs ! 0, tbl_TableID = segs ! 1\<rparr>
      else if length segs = 3 \<and> (\<forall>seg \<in> set segs. seg \<noteq> []) then
        Inr \<lparr>tbl_ProjectID = segs ! 0, tbl_DatasetID = segs ! 1, tbl_TableID = segs ! 2\<rparr>
      else Inl (malformed_name_error tableName))"
  unfolding getTableRef_def Let_def has_empty_component_iff by auto

theorem getTableRef_spec_witness:
  "getTableRef \<lparr>ProjectID = ''home''\<rparr> ''ds.t''
     = Inr \<lparr>tbl_ProjectID = ''home'', tbl_DatasetID = ''ds'', tbl_TableID = ''t''\<rparr> \<and>
   getTableRef \<lparr>ProjectID = ''home''\<rparr> ''p.ds.t''
     = Inr \<lparr>tbl_ProjectID = ''p'', tbl_DatasetID = ''ds'', tbl_TableID = ''t''\<rparr> \<and>
   getTableRef \<lparr>ProjectID = ''home''\<rparr> ''t'' = Inl (malformed_name_error ''t'') \<and>
   getTableRef \<lparr>ProjectID = ''home''\<rparr> ''a.b.c.d'' = Inl (malformed_name_error ''a.b.c.d'') \<and>
   getTableRef \<lparr>ProjectID = ''home''\<rparr> ''a..c'' = Inl (malformed_name_error ''a..c'')"
  using getTableRef_spec [of "\<lparr>ProjectID = ''home''\<rparr>" "''ds.t''"]
        getTableRef_spec [of "\<lparr>ProjectID = ''home''\<rparr>" "''p.ds.t''"]
        getTableRef_spec [of "\<lparr>ProjectID = ''home''\<rparr>" "''t''"]
        getTableRef_spec [of "\<lparr>ProjectID = ''home''\<rparr>" "''a.b.c.d''"]
        getTableRef_spec [of "\<lparr>ProjectID = ''home''\<rparr>" "''a..c''"]
  by simp

section \<open>Partitioning and clustering predicates\<close>

text \<open>
  Claim C5. \<open>IsSamePartitioning\<close> reports a mismatch when the asset declares a partition
  column and the live table has neither time nor range partitioning; it reports a match
  when the live table has no partitioning and the asset declares none; and when the live
  table has time or range partitioning it reports a match exactly if the field of each
  partitioning that exists equals the asset's partition column (both are checked when
  both exist).
\<close>

theorem IsSamePartitioning_spec:
  "(PartitionBy (Materialization asset) \<noteq> [] \<and> TimePartitioning meta = None \<and>
      RangePartitioning meta = None \<longrightarrow> \<not> IsSamePartitioning meta asset) \<and>
   (TimePartitioning meta = None \<and> RangePartitioning meta = None \<and>
      PartitionBy (Materialization asset) = [] \<longrightarrow> IsSamePartitioning meta asset) \<and>
   (TimePartitioning meta \<noteq> None \<or> RangePartitioning meta \<noteq> None \<longrightarrow>
      IsSamePartitioning meta asset =
        ((\<forall>tp. TimePartitioning meta = Some tp \<longrightarrow>
                tp_Field tp = PartitionBy (Materialization asset)) \<and>
         (\<forall>rp. RangePartitioning meta = Some rp \<longrightarrow>
                rp_Field rp = PartitionBy (Materialization asset))))"
  unfolding IsSamePartitioning_def by (auto split: option.splits)

text \<open>
  Claim C6. \<open>IsSameClustering\<close> reports a mismatch when the asset declares cluster
  columns and the live clustering is absent or has no fields; it reports a match when
  the live clustering is absent and the asset declares none; and when the live
  clustering exists it reports a match exactly if the two field lists have the same
  length and agree at every position, so the same columns in another order are a
  mismatch.
\<close>

theorem IsSameClustering_spec:
  "(ClusterBy (Materialization asset) \<noteq> [] \<and>
      (Clustering meta = None \<or> (\<exists>c. Clustering meta = Some c \<and> Fields c = [])) \<longrightarrow>
      \<not> IsSameClustering meta asset) \<and>
   (Clustering meta = None \<and> ClusterBy (Materialization asset) = [] \<longrightarrow>
      IsSameClustering meta asset) \<and>
   (\<forall>c. Clustering meta = Some c \<longrightarrow>
      IsSameClustering meta asset =
        (length (Fields c) = length (ClusterBy (Materialization asset)) \<and>
         (\<forall>i < length (Fields c). Fields c ! i = ClusterBy (Materialization asset) ! i)))"
  unfolding IsSameClustering_def Let_def
  by (auto simp: fields_loop_eq split: option.splits)


theorem IsSamePartitioning_spec_witness:
  "\<not> IsSamePartitioning (live_table None None None) (table_asset ''ds.t'' ''dt'' []) \<and>
   IsSamePartitioning (live_table None None None) (table_asset ''ds.t'' [] []) \<and>
   IsSamePartitioning (live_table (Some \<lparr>tp_Field = ''dt''\<rparr>) None None)
     (table_asset ''ds.t'' ''dt'' []) \<and>
   \<not> IsSamePartitioning (live_table (Some \<lparr>tp_Field = ''other''\<rparr>) None None)
     (table_asset ''ds.t'' ''dt'' []) \<and>
   \<not> IsSamePartitioning (live_table (Some \<lparr>tp_Field = ''dt''\<rparr>) (Some \<lparr>rp_Field = ''id''\<rparr>) None)
     (table_asset ''ds.t'' ''dt'' [])"
  using IsSamePartitioning_spec
          [of "table_asset ''ds.t'' ''dt'' []" "live_table None None None"]
        IsSamePartitioning_spec
          [of "table_asset ''ds.t'' [] []" "live_table None None None"]
        IsSamePartitioning_spec
          [of "table_asset ''ds.t'' ''dt'' []" "live_table (Some \<lparr>tp_Field = ''dt''\<rparr>) None None"]
        IsSamePartitioning_spec
          [of "table_asset ''ds.t'' ''dt'' []" "live_table (Some \<lparr>tp_Field = ''other''\<rparr>) None None"]
        IsSamePartitioning_spec
          [of "table_asset ''ds.t'' ''dt'' []"
              "live_table (Some \<lparr>tp_Field = ''dt''\<rparr>) (Some \<lparr>rp_Field = ''id''\<rparr>) None"]
  by (simp add: live_table_def table_asset_def)

theorem IsSameClustering_spec_witness:
  "IsSameClustering (live_table None None (Some \<lparr>Fields = [''a'', ''b'']\<rparr>))
     (table_asset ''ds.t'' [] [''a'', ''b'']) \<and>
   \<not> IsSameClustering (live_table None None (Some \<lparr>Fields = [''b'', ''a'']\<rparr>))
     (table_asset ''ds.t'' [] [''a'', ''b'']) \<and>
   \<not> IsSameClustering (live_table None None (Some \<lparr>Fields = []\<rparr>))
     (table_asset ''ds.t'' [] [''a'', ''b'']) \<and>
   \<not> IsSameClustering (live_table None None None) (table_asset ''ds.t'' [] [''a'', ''b'']) \<and>
   IsSameClustering (live_table None None None) (table_asset ''ds.t'' [] [])"
  using IsSameClustering_spec
          [of "table_asset ''ds.t'' [] [''a'', ''b'']"
              "live_table None None (Some \<lparr>Fields = [''a'', ''b'']\<rparr>)"]
        IsSameClustering_spec
          [of "table_asset ''ds.t'' [] [''a'', ''b'']"
              "live_table None None (Some \<lparr>Fields = [''b'', ''a'']\<rparr>)"]
        IsSameClustering_spec
          [of "table_asset ''ds.t'' [] [''a'', ''b'']"
              "live_table None None (Some \<lparr>Fields = []\<rparr>)"]
        IsSameClustering_spec
          [of "table_asset ''ds.t'' [] [''a'', ''b'']" "live_table None None None"]
        IsSameClustering_spec
          [of "table_asset ''ds.t'' [] []" "live_table None None None"]
  by (simp add: live_table_def table_asset_def All_less_Suc)



section \<open>Metadata reconciliation\<close>

lemma columns_loop_any:
  "snd (columns_loop cols colsByName anyDesc) =
     (anyDesc \<or> (\<exists>col \<in> set cols. col_Description col \<noteq> []))"
  by (induction cols arbitrary: colsByName anyDesc) auto

lemma malformed_name_error_neq: "malformed_name_error name \<noteq> NoMetadataUpdatedError"
  by (simp add: malformed_name_error_def)

lemma nothing_to_push_iff:
  "(Description asset = [] \<and>
     (length (Columns asset) = 0 \<or> \<not> snd (columns_loop (Columns asset) Map.empty False))) =
   (Description asset = [] \<and> (\<forall>col \<in> set (Columns asset). col_Description col = []))"
  by (auto simp: columns_loop_any)

text \<open>
  Claim C7. \<open>UpdateTableMetadataIfNotExist\<close> returns \<open>NoMetadataUpdatedError\<close> if and
  only if the asset's description is empty and no column has a non-empty description,
  and in that case it has sent no request: neither the metadata fetch nor the update.
\<close>

theorem UpdateTableMetadataIfNotExist_nothing_to_push:
  "(fst (UpdateTableMetadataIfNotExist d asset) = Some NoMetadataUpdatedError) =
     (Description asset = [] \<and> (\<forall>col \<in> set (Columns asset). col_Description col = [])) \<and>
   (Description asset = [] \<and> (\<forall>col \<in> set (Columns asset). col_Description col = []) \<longrightarrow>
     UpdateTableMetadataIfNotExist d asset = (Some NoMetadataUpdatedError, []))"
proof -
  let ?nothing =
    "Description asset = [] \<and> (\<forall>col \<in> set (Columns asset). col_Description col = [])"
  have gate: "(Description asset = [] \<and>
     (length (Columns asset) = 0 \<or> \<not> snd (columns_loop (Columns asset) Map.empty False)))
     = ?nothing"
    by (rule nothing_to_push_iff)
  have returned: "UpdateTableMetadataIfNotExist d asset = (Some NoMetadataUpdatedError, [])"
    if ?nothing
    using that gate unfolding UpdateTableMetadataIfNotExist_def
    by (simp add: case_prod_unfold)
  have other: "fst (UpdateTableMetadataIfNotExist d asset) \<noteq> Some NoMetadataUpdatedError"
    if "\<not> ?nothing"
    using that gate unfolding UpdateTableMetadataIfNotExist_def
    by (auto simp: case_prod_unfold Let_def malformed_name_error_neq getTableRef_def
             split: sum.splits option.splits if_splits)
  show ?thesis using returned other by auto
qed

theorem UpdateTableMetadataIfNotExist_nothing_to_push_witness:
  "UpdateTableMetadataIfNotExist (stub_client (Inr keyed_table) None None None None)
     (keyed_asset\<lparr>Description := []\<rparr>) = (Some NoMetadataUpdatedError, []) \<and>
   fst (UpdateTableMetadataIfNotExist (stub_client (Inr keyed_table) None None None None)
     keyed_asset) \<noteq> Some NoMetadataUpdatedError"
  using UpdateTableMetadataIfNotExist_nothing_to_push
          [of "stub_client (Inr keyed_table) None None None None"
              "keyed_asset\<lparr>Description := []\<rparr>"]
        UpdateTableMetadataIfNotExist_nothing_to_push
          [of "stub_client (Inr keyed_table) None None None None" keyed_asset]
  by (simp add: keyed_asset_def)


lemma ColumnNamesWithPrimaryKey_keyed: "ColumnNamesWithPrimaryKey keyed_asset = [''id'']"
  by (simp add: ColumnNamesWithPrimaryKey_def keyed_asset_def)

lemma build_update_keyed:
  "build_update keyed_asset colsByName keyed_table =
     \<lparr>upd_Schema = None, upd_Description = Some ''All users'',
      upd_TableConstraints = Some \<lparr>PrimaryKey = Some \<lparr>pk_Columns = [''id'']\<rparr>\<rparr>\<rparr>"
  by (simp add: build_update_def ColumnNamesWithPrimaryKey_keyed)
     (simp add: keyed_asset_def keyed_table_def)

lemma keyed_update_run:
  "UpdateTableMetadataIfNotExist (stub_client (Inr keyed_table) None None None None) keyed_asset =
     (None,
      [Table_Metadata users_ref,
       Table_Update users_ref
         \<lparr>upd_Schema = None, upd_Description = Some ''All users'',
          upd_TableConstraints = Some \<lparr>PrimaryKey = Some \<lparr>pk_Columns = [''id'']\<rparr>\<rparr>\<rparr>
         ''etag-1''])"
proof -
  have name: "Name keyed_asset = ''ds.users''" and descr: "Description keyed_asset \<noteq> []"
    by (simp_all add: keyed_asset_def)
  have fetched:
    "table_Metadata (client (stub_client (Inr keyed_table) None None None None)) users_ref
       = Inr keyed_table"
    and updated:
    "table_Update (client (stub_client (Inr keyed_table) None None None None)) users_ref u e
       = None" for u e
    by (simp_all add: stub_client_def)
  have etag: "ETag keyed_table = ''etag-1''" by (simp add: keyed_table_def)
  show ?thesis
    unfolding UpdateTableMetadataIfNotExist_def
    using descr
    by (simp add: case_prod_unfold name getTableRef_users fetched updated etag build_update_keyed)
qed

lemma build_update_TableConstraints:
  "upd_TableConstraints (build_update asset colsByName meta) =
     (if ColumnNamesWithPrimaryKey asset = [] then None
      else Some \<lparr>PrimaryKey = Some \<lparr>pk_Columns = ColumnNamesWithPrimaryKey asset\<rparr>\<rparr>)"
  by (simp add: build_update_def case_prod_unfold Let_def)

text \<open>
  Claim C8 as stated fails: the live table \<open>keyed_table\<close> already has the primary key
  \<^verbatim>\<open>id\<close> that \<open>keyed_asset\<close> declares, and the update that is submitted carries that
  primary-key constraint all the same.
\<close>

theorem primary_key_pushed_again_counterexample:
  "TableConstraints keyed_table = Some \<lparr>PrimaryKey = Some \<lparr>pk_Columns = [''id'']\<rparr>\<rparr> \<and>
   ColumnNamesWithPrimaryKey keyed_asset = [''id''] \<and>
   UpdateTableMetadataIfNotExist (stub_client (Inr keyed_table) None None None None) keyed_asset =
     (None,
      [Table_Metadata users_ref,
       Table_Update users_ref
         \<lparr>upd_Schema = None, upd_Description = Some ''All users'',
          upd_TableConstraints = Some \<lparr>PrimaryKey = Some \<lparr>pk_Columns = [''id'']\<rparr>\<rparr>\<rparr>
         ''etag-1''])"
  by (simp add: keyed_update_run ColumnNamesWithPrimaryKey_keyed) (simp add: keyed_table_def)

text \<open>
  Claim C8, amended. \<open>UpdateTableMetadataIfNotExist\<close> never compares with the live
  table's constraints: every update it submits carries a primary-key constraint listing
  all the asset's columns flagged as primary key when there is at least one, and no
  constraint change when there is none, whatever constraints the live table has.
\<close>

theorem UpdateTableMetadataIfNotExist_primary_key:
  assumes "Table_Update tableRef upd etag \<in> set (snd (UpdateTableMetadataIfNotExist d asset))"
  shows "upd_TableConstraints upd =
           (if ColumnNamesWithPrimaryKey asset = [] then None
            else Some \<lparr>PrimaryKey = Some \<lparr>pk_Columns = ColumnNamesWithPrimaryKey asset\<rparr>\<rparr>)"
proof -
  from assms obtain colsByName meta where "upd = build_update asset colsByName meta"
    unfolding UpdateTableMetadataIfNotExist_def
    by (auto simp: case_prod_unfold Let_def split: if_splits sum.splits option.splits)
  then show ?thesis by (simp only: build_update_TableConstraints)
qed

theorem UpdateTableMetadataIfNotExist_primary_key_witness:
  "Table_Update users_ref
     \<lparr>upd_Schema = None, upd_Description = Some ''All users'',
      upd_TableConstraints = Some \<lparr>PrimaryKey = Some \<lparr>pk_Columns = [''id'']\<rparr>\<rparr>\<rparr> ''etag-1''
     \<in> set (snd (UpdateTableMetadataIfNotExist
                    (stub_client (Inr keyed_table) None None None None) keyed_asset)) \<and>
   Some \<lparr>PrimaryKey = Some \<lparr>pk_Columns = [''id'']\<rparr>\<rparr> =
     (if ColumnNamesWithPrimaryKey keyed_asset = [] then None
      else Some \<lparr>PrimaryKey = Some \<lparr>pk_Columns = ColumnNamesWithPrimaryKey keyed_asset\<rparr>\<rparr>)"
  using UpdateTableMetadataIfNotExist_primary_key
          [of users_ref
              "\<lparr>upd_Schema = None, upd_Description = Some ''All users'',
                upd_TableConstraints = Some \<lparr>PrimaryKey = Some \<lparr>pk_Columns = [''id'']\<rparr>\<rparr>\<rparr>"
              "''etag-1''" "stub_client (Inr keyed_table) None None None None" keyed_asset]
  by (simp add: keyed_update_run)

section \<open>The error translator\<close>

text \<open>
  Claim C9 as stated fails: an API error with status 500 that arrives wrapped in further
  context is neither reduced to its message nor returned as it came; the translator
  returns the API error without its wrapper.
\<close>

theorem formatError_wrapped_counterexample:
  "formatError (Driver (Chained ''reading rows'' backend_error)) = Driver backend_error \<and>
   Driver backend_error \<noteq> Driver (Chained ''reading rows'' backend_error)"
  by (simp add: formatError_def backend_error_def)

text \<open>
  Claim C9, amended. An error with an API error of status 404 or 400 on its unwrap chain
  is reduced to a bare error holding only that API error's message; an error with no API
  error on its chain is returned unchanged, and so is an error that is itself an API
  error of another status; an error that wraps an API error of another status is
  replaced by that API error.
\<close>

theorem formatError_spec:
  "(\<forall>g. errors_As_googleapi err = Some g \<and> (Code g = 404 \<or> Code g = 400) \<longrightarrow>
        formatError err = PlainError (Message g)) \<and>
   (errors_As_googleapi err = None \<longrightarrow> formatError err = err) \<and>
   (\<forall>g. err = Driver (Googleapi g) \<and> Code g \<noteq> 404 \<and> Code g \<noteq> 400 \<longrightarrow>
        formatError err = err) \<and>
   (\<forall>g. errors_As_googleapi err = Some g \<and> Code g \<noteq> 404 \<and> Code g \<noteq> 400 \<longrightarrow>
        formatError err = Driver (Googleapi g))"
  by (auto simp: formatError_def)

theorem formatError_spec_witness:
  "formatError (Driver not_found) = PlainError ''Not found'' \<and>
   formatError (Wrapped ''query failed'' (Driver (Googleapi (GoogleapiError 400 ''Syntax error''))))
     = PlainError ''Syntax error'' \<and>
   formatError (Driver (OtherError ''connection reset'')) = Driver (OtherError ''connection reset'') \<and>
   formatError (Driver backend_error) = Driver backend_error \<and>
   formatError (Driver (Chained ''reading rows'' backend_error)) = Driver backend_error"
  using formatError_spec [of "Driver not_found"]
        formatError_spec
          [of "Wrapped ''query failed'' (Driver (Googleapi (GoogleapiError 400 ''Syntax error'')))"]
        formatError_spec [of "Driver (OtherError ''connection reset'')"]
        formatError_spec [of "Driver backend_error"]
        formatError_spec [of "Driver (Chained ''reading rows'' backend_error)"]
  by (simp add: not_found_def backend_error_def)

section \<open>Provisioning without name validation\<close>

text \<open>
  Claim C10. \<open>CreateDataSetIfNotExist\<close> does not test the components for emptiness. For
  a name of two or three components, empty or not, it never returns the malformed-name
  error; it takes the project and the dataset from the components as they are, and
  unless their key is already cached it registers the key's lock and sends, first of
  all, the probe for that project and dataset. When the probe finds the dataset that is
  the only request; when the probe reports not found, the create request for the same
  project and dataset follows, and its success stores the key while its failure is
  returned wrapped; any other probe error is returned wrapped after the probe alone.
  \<open>getTableRef\<close> and \<open>BuildTableExistsQuery\<close> reject the same name when a component
  is empty.
\<close>

theorem CreateDataSetIfNotExist_no_validation:
  assumes "length (strings_Split (Name asset) (CHR ''.'')) = 2 \<or>
           length (strings_Split (Name asset) (CHR ''.'')) = 3"
  shows
   "let segs = strings_Split (Name asset) (CHR ''.'');
        projectID = (if length segs = 2 then ProjectID (config d) else segs ! 0);
        datasetName = (if length segs = 2 then segs ! 0 else segs ! 1);
        cacheKey = projectID @ ''.'' @ datasetName;
        g' = g\<lparr>datasetLocks := insert cacheKey (datasetLocks g)\<rparr>;
        run = CreateDataSetIfNotExist d asset g
    in (\<forall>name. fst run \<noteq> Some (malformed_name_error name)) \<and>
       (datasetNameCache g cacheKey = None \<longrightarrow>
          cacheKey \<in> datasetLocks (fst (snd run)) \<and>
          take 1 (snd (snd run)) = [Dataset_Metadata projectID datasetName] \<and>
          (dataset_Metadata (client d) projectID datasetName = None \<longrightarrow>
             run = (None, g', [Dataset_Metadata projectID datasetName])) \<and>
          (\<forall>err. dataset_Metadata (client d) projectID datasetName = Some err \<and>
                 is_not_found (Driver err) \<longrightarrow>
             snd (snd run) = [Dataset_Metadata projectID datasetName,
                              Dataset_Create projectID datasetName] \<and>
             (dataset_Create (client d) projectID datasetName = None \<longrightarrow>
                run = (None,
                       g'\<lparr>datasetNameCache := (datasetNameCache g)(cacheKey \<mapsto> True)\<rparr>,
                       [Dataset_Metadata projectID datasetName,
                        Dataset_Create projectID datasetName])) \<and>
             (\<forall>err'. dataset_Create (client d) projectID datasetName = Some err' \<longrightarrow>
                run = (Some (Wrapped (''failed to create dataset '' @ quoted datasetName)
                               (Driver err')),
                       g',
                       [Dataset_Metadata projectID datasetName,
                        Dataset_Create projectID datasetName]))) \<and>
          (\<forall>err. dataset_Metadata (client d) projectID datasetName = Some err \<and>
                 \<not> is_not_found (Driver err) \<longrightarrow>
             run = (Some (Wrapped (''failed to fetch metadata for table '' @ quoted (Name asset))
                            (Driver err)),
                    g', [Dataset_Metadata projectID datasetName]))) \<and>
       ([] \<in> set segs \<longrightarrow>
          getTableRef (config d) (Name asset) = Inl (malformed_name_error (Name asset)) \<and>
          BuildTableExistsQuery (config d) (Name asset) = Inl (malformed_name_error (Name asset)))"
  using assms
  unfolding CreateDataSetIfNotExist_def getTableRef_def BuildTableExistsQuery_def Let_def
    has_empty_component_iff
  by (auto simp: malformed_name_error_def split: option.splits)

theorem CreateDataSetIfNotExist_no_validation_witness:
  "fst (CreateDataSetIfNotExist (stub_client (Inl not_found) None None None None)
          (table_asset ''.dataset.table'' [] []) empty_globals)
     \<noteq> Some (malformed_name_error ''.dataset.table'') \<and>
   ''.dataset'' \<in> datasetLocks (fst (snd (CreateDataSetIfNotExist
          (stub_client (Inl not_found) None None None None)
          (table_asset ''.dataset.table'' [] []) empty_globals))) \<and>
   take 1 (snd (snd (CreateDataSetIfNotExist (stub_client (Inl not_found) None None None None)
          (table_asset ''.dataset.table'' [] []) empty_globals)))
     = [Dataset_Metadata [] ''dataset''] \<and>
   getTableRef \<lparr>ProjectID = ''home''\<rparr> ''.dataset.table''
     = Inl (malformed_name_error ''.dataset.table'') \<and>
   BuildTableExistsQuery \<lparr>ProjectID = ''home''\<rparr> ''.dataset.table''
     = Inl (malformed_name_error ''.dataset.table'') \<and>
   take 1 (snd (snd (CreateDataSetIfNotExist (stub_client (Inl not_found) None None None None)
          (table_asset ''..'' [] []) empty_globals)))
     = [Dataset_Metadata [] []] \<and>
   CreateDataSetIfNotExist (stub_client (Inl not_found) None None (Some not_found) None)
     (table_asset ''..'' [] []) empty_globals
     = (None,
        \<lparr>datasetNameCache = [''.'' \<mapsto> True], datasetLocks = {''.''}\<rparr>,
        [Dataset_Metadata [] [], Dataset_Create [] []]) \<and>
   CreateDataSetIfNotExist (stub_client (Inl not_found) None None (Some not_found) None)
     (table_asset ''.dataset.table'' [] []) empty_globals
     = (None,
        \<lparr>datasetNameCache = [''.dataset'' \<mapsto> True], datasetLocks = {''.dataset''}\<rparr>,
        [Dataset_Metadata [] ''dataset'', Dataset_Create [] ''dataset'']) \<and>
   CreateDataSetIfNotExist
     (stub_client (Inl not_found) None None (Some not_found) (Some backend_error))
     (table_asset ''..'' [] []) empty_globals
     = (Some (Wrapped (''failed to create dataset '' @ quoted []) (Driver backend_error)),
        \<lparr>datasetNameCache = Map.empty, datasetLocks = {''.''}\<rparr>,
        [Dataset_Metadata [] [], Dataset_Create [] []])"
  using CreateDataSetIfNotExist_no_validation
          [of "table_asset ''.dataset.table'' [] []"
              "stub_client (Inl not_found) None None None None" empty_globals]
        CreateDataSetIfNotExist_no_validation
          [of "table_asset ''..'' [] []"
              "stub_client (Inl not_found) None None None None" empty_globals]
        CreateDataSetIfNotExist_no_validation
          [of "table_asset ''..'' [] []"
              "stub_client (Inl not_found) None None (Some not_found) None" empty_globals]
        CreateDataSetIfNotExist_no_validation
          [of "table_asset ''.dataset.table'' [] []"
              "stub_client (Inl not_found) None None (Some not_found) None" empty_globals]
        CreateDataSetIfNotExist_no_validation
          [of "table_asset ''..'' [] []"
              "stub_client (Inl not_found) None None (Some not_found) (Some backend_error)"
              empty_globals]
  by (simp add: Let_def table_asset_def stub_client_def empty_globals_def is_not_found_simps)

end
